theory Spec2Isabelle
  imports Main "HOL-Library.Word"
begin

section \<open>The recurring-task scheduler of server/tasks.go\<close>

text \<open>
  The Go file keeps two package-level variables, \<open>taskScheduler\<close> and \<open>taskFuncs\<close>, and
  five functions over them: \<open>setupTasks\<close>, \<open>addTaskToScheduler\<close>, \<open>getAllTasks\<close>,
  \<open>getTask\<close> and \<open>rescheduleTask\<close>. Each function is modelled as a function from the
  program state to a result and the next state. A nil-interface method call, which panics in
  Go, is the result \<open>Inl NilPointerDereference\<close>.
\<close>

subsection \<open>Go values\<close>

text \<open>
  \<open>int\<close> is taken at its width on 64-bit targets; \<open>time.Duration\<close> is an \<open>int64\<close> count of
  nanoseconds. Both wrap around on overflow, as Go's integer arithmetic does.
\<close>

type_synonym go_int = "64 word"
type_synonym duration = "64 word"

definition Second :: duration where
  "Second = 1000000000"

definition Hour :: duration where
  "Hour = 3600000000000"

text \<open>\<open>time.Time\<close>, as nanoseconds on some fixed scale; the zero value is \<open>zero_time\<close>.\<close>

type_synonym go_time = int

definition zero_time :: go_time where
  "zero_time = 0"

text \<open>A Go \<open>error\<close> value made by \<open>errors.New\<close>; \<open>nil\<close> is \<open>None\<close> of \<open>go_error option\<close>.\<close>

datatype go_error = ErrorString string

datatype panic = NilPointerDereference

text \<open>
  The work functions are closures; two of them capture the database handle given to
  \<open>setupTasks\<close>. A nil \<open>func()\<close> is \<open>None\<close> of \<open>task_func option\<close>.
\<close>

type_synonym db = nat

datatype task_func = CleanupTokensFn db | RefreshArrQueuesFn | CleanupImagesFn db

record TaskRescheduleRequest =
  Seconds :: go_int

record AllTasksResponse =
  Name :: string
  NextRun :: go_time

subsection \<open>The execution engine\<close>

text \<open>
  Modelled from the spec: the execution engine (the gocron scheduler, an external library
  whose code is not in the repository). The spec describes it as the owner of the set of
  active jobs, each with an opaque engine-assigned id, a display name, an interval and a
  work function; a registration adds a job under a fresh id; an update retires the job
  with the given id and registers a replacement under a fresh id, or is rejected (for one,
  when the id is no longer known); the engine enumerates its jobs in its own order.
  What the spec leaves open is a parameter, \<open>engine_behaviour\<close>: whether construction
  fails, which registrations and replacements the engine rejects, and the outcome of each
  job's next-run query.
\<close>

record job_definition =
  def_duration :: duration
  def_task :: "task_func option"
  def_name :: string

record job =
  job_id :: nat
  job_name :: string
  job_duration :: duration
  job_task :: "task_func option"

record engine =
  jobs :: "job list"
  next_id :: nat
  started :: bool

record engine_behaviour =
  new_scheduler_error :: "go_error option"
  new_job_error :: "job_definition \<Rightarrow> go_error option"
  update_error :: "nat \<Rightarrow> job_definition \<Rightarrow> go_error option"
  next_run :: "job \<Rightarrow> go_error + go_time"

definition make_job :: "nat \<Rightarrow> job_definition \<Rightarrow> job" where
  "make_job i d =
     \<lparr>job_id = i, job_name = def_name d, job_duration = def_duration d, job_task = def_task d\<rparr>"

definition gocron_NewScheduler :: "engine_behaviour \<Rightarrow> go_error + engine" where
  "gocron_NewScheduler b =
     (case new_scheduler_error b of
        Some err \<Rightarrow> Inl err
      | None \<Rightarrow> Inr \<lparr>jobs = [], next_id = 0, started = False\<rparr>)"

definition gocron_NewJob ::
  "engine_behaviour \<Rightarrow> engine \<Rightarrow> job_definition \<Rightarrow> go_error + (job \<times> engine)" where
  "gocron_NewJob b e d =
     (case new_job_error b d of
        Some err \<Rightarrow> Inl err
      | None \<Rightarrow>
          (let j = make_job (next_id e) d
           in Inr (j, e\<lparr>jobs := jobs e @ [j], next_id := Suc (next_id e)\<rparr>)))"

definition gocron_Update ::
  "engine_behaviour \<Rightarrow> engine \<Rightarrow> nat \<Rightarrow> job_definition \<Rightarrow> go_error + (job \<times> engine)" where
  "gocron_Update b e i d =
     (if list_all (\<lambda>x. job_id x \<noteq> i) (jobs e) then Inl (ErrorString ''job not found'')
      else
        (case update_error b i d of
           Some err \<Rightarrow> Inl err
         | None \<Rightarrow>
             (let j = make_job (next_id e) d
              in Inr (j, e\<lparr>jobs := filter (\<lambda>x. job_id x \<noteq> i) (jobs e) @ [j],
                            next_id := Suc (next_id e)\<rparr>))))"

definition gocron_Jobs :: "engine \<Rightarrow> job list" where
  "gocron_Jobs e = jobs e"

definition gocron_Start :: "engine \<Rightarrow> engine" where
  "gocron_Start e = e\<lparr>started := True\<rparr>"

definition Job_NextRun :: "engine_behaviour \<Rightarrow> job \<Rightarrow> go_error + go_time" where
  "Job_NextRun b j = next_run b j"

subsection \<open>Program state\<close>

text \<open>
  The state holds the two package variables, the \<open>TASK_SCHEDULE\<close> map of the \<open>Config\<close>
  variable (declared in another file: a map from task names to a number of seconds, read
  here and never written), the records written through \<open>slog\<close>, and the history of the
  calls made to the engine that create or change something.
\<close>

datatype log_level = Debug | Info | Error

datatype log_value = VStr string | VErr go_error | VDur duration

type_synonym log_entry = "log_level \<times> string \<times> (string \<times> log_value) list"

datatype engine_call =
    CallNewScheduler
  | CallNewJob job_definition
  | CallUpdate nat job_definition
  | CallStart

record state =
  taskScheduler :: "engine option"
  taskFuncs :: "string \<rightharpoonup> task_func"
  TASK_SCHEDULE :: "string \<rightharpoonup> go_int"
  slog :: "log_entry list"
  calls :: "engine_call list"

definition slog_write ::
  "log_level \<Rightarrow> string \<Rightarrow> (string \<times> log_value) list \<Rightarrow> state \<Rightarrow> state" where
  "slog_write lvl msg attrs s = s\<lparr>slog := slog s @ [(lvl, msg, attrs)]\<rparr>"

definition record_call :: "engine_call \<Rightarrow> state \<Rightarrow> state" where
  "record_call c s = s\<lparr>calls := calls s @ [c]\<rparr>"

text \<open>The state of a process before \<open>setupTasks\<close>: both package variables are nil.\<close>

definition initial_state :: "(string \<rightharpoonup> go_int) \<Rightarrow> state" where
  "initial_state cfg =
     \<lparr>taskScheduler = None, taskFuncs = Map.empty, TASK_SCHEDULE = cfg, slog = [], calls = []\<rparr>"

subsection \<open>addTaskToScheduler\<close>

text \<open>Reading a Go map at a missing key gives the zero value.\<close>

definition config_schedule :: "state \<Rightarrow> string \<Rightarrow> go_int" where
  "config_schedule s name = (case TASK_SCHEDULE s name of None \<Rightarrow> 0 | Some v \<Rightarrow> v)"

definition effective_duration :: "state \<Rightarrow> string \<Rightarrow> duration \<Rightarrow> duration" where
  "effective_duration s name defaultDur =
     (if config_schedule s name \<noteq> 0 then config_schedule s name * Second else defaultDur)"

definition addTaskToScheduler ::
  "engine_behaviour \<Rightarrow> string \<Rightarrow> duration \<Rightarrow> state \<Rightarrow> (panic + go_error option) \<times> state" where
  "addTaskToScheduler b name defaultDur s =
     (let dur = effective_duration s name defaultDur;
          d = \<lparr>def_duration = dur, def_task = taskFuncs s name, def_name = name\<rparr>;
          attrs = [(''job_name'', VStr name), (''duration_used'', VDur dur),
                   (''duration_default'', VDur defaultDur)]
      in case taskScheduler s of
           None \<Rightarrow> (Inl NilPointerDereference, s)
         | Some e \<Rightarrow>
             (case gocron_NewJob b e d of
                Inl err \<Rightarrow>
                  (Inr (Some err),
                   slog_write Debug ''addTaskToScheduler: Job added.'' attrs
                     (record_call (CallNewJob d) s))
              | Inr (j, e') \<Rightarrow>
                  (Inr None,
                   slog_write Debug ''addTaskToScheduler: Job added.'' attrs
                     ((record_call (CallNewJob d) s)\<lparr>taskScheduler := Some e'\<rparr>))))"

subsection \<open>setupTasks\<close>

text \<open>One of the three blocks "add the job; on an error, log it and go on".\<close>

definition add_or_log ::
  "engine_behaviour \<Rightarrow> string \<Rightarrow> duration \<Rightarrow> state \<Rightarrow> (panic + unit) \<times> state" where
  "add_or_log b name defaultDur s =
     (case addTaskToScheduler b name defaultDur s of
        (Inl p, s') \<Rightarrow> (Inl p, s')
      | (Inr None, s') \<Rightarrow> (Inr (), s')
      | (Inr (Some err), s') \<Rightarrow>
          (Inr (),
           slog_write Error ''SetupTasks: Failed to add new job''
             [(''job'', VStr name), (''err'', VErr err)] s'))"

definition new_taskFuncs :: "db \<Rightarrow> (string \<rightharpoonup> task_func)" where
  "new_taskFuncs d =
     [''Cleanup Tokens'' \<mapsto> CleanupTokensFn d,
      ''Refresh Arr Queues'' \<mapsto> RefreshArrQueuesFn,
      ''Cleanup Images'' \<mapsto> CleanupImagesFn d]"

definition start_scheduler :: "state \<Rightarrow> (panic + unit) \<times> state" where
  "start_scheduler s =
     (case taskScheduler s of
        None \<Rightarrow> (Inl NilPointerDereference, s)
      | Some e \<Rightarrow>
          (Inr (),
           slog_write Info ''SetupTasks: Jobs created and scheduler started.'' []
             ((record_call CallStart s)\<lparr>taskScheduler := Some (gocron_Start e)\<rparr>)))"

definition setupTasks :: "engine_behaviour \<Rightarrow> db \<Rightarrow> state \<Rightarrow> (panic + unit) \<times> state" where
  "setupTasks b d s =
     (case gocron_NewScheduler b of
        Inl err \<Rightarrow>
          (Inr (),
           slog_write Error ''SetupTasks: Failed to create new scheduler!''
             [(''error'', VErr err)] (record_call CallNewScheduler s))
      | Inr ts \<Rightarrow>
          (let s0 = (record_call CallNewScheduler s)
                      \<lparr>taskScheduler := Some ts, taskFuncs := new_taskFuncs d\<rparr>
           in case add_or_log b ''Cleanup Tokens'' (60 * Second) s0 of
                (Inl p, s1) \<Rightarrow> (Inl p, s1)
              | (Inr u1, s1) \<Rightarrow>
                  (case add_or_log b ''Refresh Arr Queues'' (60 * Second) s1 of
                     (Inl p, s2) \<Rightarrow> (Inl p, s2)
                   | (Inr u2, s2) \<Rightarrow>
                       (case add_or_log b ''Cleanup Images'' (24 * Hour) s2 of
                          (Inl p, s3) \<Rightarrow> (Inl p, s3)
                        | (Inr u3, s3) \<Rightarrow> start_scheduler s3))))"

subsection \<open>getAllTasks\<close>

text \<open>
  The loop over \<open>taskScheduler.Jobs()\<close>: the accumulator is the slice built so far, and
  the state is threaded because a failed next-run query writes a log record.
\<close>

fun getAllTasks_loop ::
  "engine_behaviour \<Rightarrow> job list \<Rightarrow> AllTasksResponse list \<Rightarrow> state \<Rightarrow>
   AllTasksResponse list \<times> state" where
  "getAllTasks_loop b [] acc s = (acc, s)"
| "getAllTasks_loop b (j # js) acc s =
     (let j2a = \<lparr>Name = job_name j, NextRun = zero_time\<rparr>
      in case Job_NextRun b j of
           Inl err \<Rightarrow>
             getAllTasks_loop b js (acc @ [j2a])
               (slog_write Error ''getAllTasks: Failed to get next run time for a job.''
                  [(''job_name'', VStr (Name j2a))] s)
         | Inr nextRun \<Rightarrow>
             getAllTasks_loop b js (acc @ [j2a\<lparr>NextRun := nextRun\<rparr>]) s)"

definition getAllTasks ::
  "engine_behaviour \<Rightarrow> state \<Rightarrow> (panic + AllTasksResponse list) \<times> state" where
  "getAllTasks b s =
     (case taskScheduler s of
        None \<Rightarrow> (Inl NilPointerDereference, s)
      | Some e \<Rightarrow>
          (case getAllTasks_loop b (gocron_Jobs e) [] s of (rs, s') \<Rightarrow> (Inr rs, s')))"

subsection \<open>getTask\<close>

text \<open>The loop with its \<open>break\<close> at the first job whose name is the one looked for.\<close>

fun getTask_loop :: "string \<Rightarrow> job list \<Rightarrow> job option" where
  "getTask_loop name [] = None"
| "getTask_loop name (j # js) = (if job_name j = name then Some j else getTask_loop name js)"

definition getTask :: "string \<Rightarrow> state \<Rightarrow> (panic + job option) \<times> state" where
  "getTask name s =
     (case taskScheduler s of
        None \<Rightarrow> (Inl NilPointerDereference, s)
      | Some e \<Rightarrow> (Inr (getTask_loop name (gocron_Jobs e)), s))"

subsection \<open>rescheduleTask\<close>

definition errNoTaskFound :: go_error where
  "errNoTaskFound = ErrorString ''no task found''"

definition errFailedToUpdate :: go_error where
  "errFailedToUpdate = ErrorString ''failed to update job''"

definition reschedule_definition :: "state \<Rightarrow> string \<Rightarrow> TaskRescheduleRequest \<Rightarrow> job_definition" where
  "reschedule_definition s name req =
     \<lparr>def_duration = Seconds req * Second, def_task = taskFuncs s name, def_name = name\<rparr>"

definition rescheduleTask ::
  "engine_behaviour \<Rightarrow> string \<Rightarrow> TaskRescheduleRequest \<Rightarrow> state \<Rightarrow>
   (panic + go_error option) \<times> state" where
  "rescheduleTask b name req s =
     (case getTask name s of
        (Inl p, s1) \<Rightarrow> (Inl p, s1)
      | (Inr None, s1) \<Rightarrow> (Inr (Some errNoTaskFound), s1)
      | (Inr (Some j), s1) \<Rightarrow>
          (case taskScheduler s1 of
             None \<Rightarrow> (Inl NilPointerDereference, s1)
           | Some e \<Rightarrow>
               (let d = reschedule_definition s1 name req;
                    s2 = record_call (CallUpdate (job_id j) d) s1
                in case gocron_Update b e (job_id j) d of
                     Inl err \<Rightarrow>
                       (Inr (Some errFailedToUpdate),
                        slog_write Error ''rescheduleTask: Failed to update job!''
                          [(''error'', VErr err)] s2)
                   | Inr (j', e') \<Rightarrow> (Inr None, s2\<lparr>taskScheduler := Some e'\<rparr>))))"

subsection \<open>Sequences of calls\<close>

text \<open>
  The three operations the rest of the server uses, as one step function, so that a
  property of "any sequence of calls" is a property of \<open>run\<close>.
\<close>

datatype api_call =
    ListJobs
  | FindJob string
  | Reschedule string go_int

datatype api_result =
    Listed "panic + AllTasksResponse list"
  | Found "panic + job option"
  | Rescheduled "panic + go_error option"

fun exec :: "engine_behaviour \<Rightarrow> api_call \<Rightarrow> state \<Rightarrow> api_result \<times> state" where
  "exec b ListJobs s = (case getAllTasks b s of (r, s') \<Rightarrow> (Listed r, s'))"
| "exec b (FindJob name) s = (case getTask name s of (r, s') \<Rightarrow> (Found r, s'))"
| "exec b (Reschedule name secs) s =
     (case rescheduleTask b name \<lparr>Seconds = secs\<rparr> s of (r, s') \<Rightarrow> (Rescheduled r, s'))"

fun run :: "engine_behaviour \<Rightarrow> api_call list \<Rightarrow> state \<Rightarrow> state" where
  "run b [] s = s"
| "run b (c # cs) s = run b cs (snd (exec b c s))"

subsection \<open>Notions used in the statements\<close>

text \<open>The active jobs, and their names, in the engine's order: what \<open>listJobs\<close> reports.\<close>

definition active_jobs :: "state \<Rightarrow> job list" where
  "active_jobs s = (case taskScheduler s of None \<Rightarrow> [] | Some e \<Rightarrow> gocron_Jobs e)"

definition job_names :: "state \<Rightarrow> string list" where
  "job_names s = map job_name (active_jobs s)"

text \<open>
  The three registrations of \<open>setupTasks\<close>, in their order, each with its default
  interval, and the definition \<open>addTaskToScheduler\<close> submits for one of them.
\<close>

definition startup_tasks :: "(string \<times> duration) list" where
  "startup_tasks =
     [(''Cleanup Tokens'', 60 * Second),
      (''Refresh Arr Queues'', 60 * Second),
      (''Cleanup Images'', 24 * Hour)]"

definition startup_definition :: "state \<Rightarrow> db \<Rightarrow> string \<Rightarrow> duration \<Rightarrow> job_definition" where
  "startup_definition s d name defaultDur =
     \<lparr>def_duration = effective_duration s name defaultDur,
      def_task = new_taskFuncs d name,
      def_name = name\<rparr>"

text \<open>The engine after an attempt to register a job: unchanged when the attempt fails.\<close>

definition attempt_NewJob :: "engine_behaviour \<Rightarrow> engine \<Rightarrow> job_definition \<Rightarrow> engine" where
  "attempt_NewJob b e d = (case gocron_NewJob b e d of Inl err \<Rightarrow> e | Inr (j, e') \<Rightarrow> e')"

text \<open>
  The invariant of the engine's job set: the ids are distinct and below the next id the
  engine hands out, and the display names are distinct. \<open>state_inv\<close> asks it of the
  scheduler when there is one; \<open>after_setup\<close> is the state \<open>setupTasks\<close> leaves when it
  is called once in a fresh process.
\<close>

definition engine_inv :: "engine \<Rightarrow> bool" where
  "engine_inv e \<longleftrightarrow>
     distinct (map job_id (jobs e)) \<and>
     list_all (\<lambda>j. job_id j < next_id e) (jobs e) \<and>
     distinct (map job_name (jobs e))"

definition state_inv :: "state \<Rightarrow> bool" where
  "state_inv s = (case taskScheduler s of None \<Rightarrow> True | Some e \<Rightarrow> engine_inv e)"

definition after_setup :: "engine_behaviour \<Rightarrow> db \<Rightarrow> (string \<rightharpoonup> go_int) \<Rightarrow> state" where
  "after_setup b d cfg = snd (setupTasks b d (initial_state cfg))"

subsection \<open>Example values\<close>

text \<open>
  An engine that refuses the registration of one task, refuses an interval of zero in an
  update, and cannot tell the next run of one job; a configuration that overrides one
  interval; and the state \<open>setupTasks\<close> leaves from them.
\<close>

definition demo_behaviour :: engine_behaviour where
  "demo_behaviour =
     \<lparr>new_scheduler_error = None,
      new_job_error = (\<lambda>d. if def_name d = ''Refresh Arr Queues''
                             then Some (ErrorString ''limit reached'') else None),
      update_error = (\<lambda>i d. if def_duration d = 0
                              then Some (ErrorString ''interval is zero'') else None),
      next_run = (\<lambda>j. if job_name j = ''Cleanup Images''
                        then Inl (ErrorString ''job not scheduled'')
                        else Inr (sint (job_duration j)))\<rparr>"

definition demo_config :: "string \<rightharpoonup> go_int" where
  "demo_config = [''Cleanup Tokens'' \<mapsto> 30]"

definition demo_state :: state where
  "demo_state = snd (setupTasks demo_behaviour 7 (initial_state demo_config))"

definition demo_engine :: engine where
  "demo_engine =
     \<lparr>jobs =
        [\<lparr>job_id = 0, job_name = ''Cleanup Tokens'', job_duration = 30000000000,
          job_task = Some (CleanupTokensFn 7)\<rparr>,
         \<lparr>job_id = 1, job_name = ''Cleanup Images'', job_duration = 86400000000000,
          job_task = Some (CleanupImagesFn 7)\<rparr>],
      next_id = 2, started = True\<rparr>"

text \<open>An engine that cannot be constructed, and an override beyond the range of a duration.\<close>

definition failing_behaviour :: engine_behaviour where
  "failing_behaviour =
     demo_behaviour\<lparr>new_scheduler_error := Some (ErrorString ''out of memory'')\<rparr>"

definition overflow_config :: "string \<rightharpoonup> go_int" where
  "overflow_config = [''Cleanup Tokens'' \<mapsto> 18446744074]"

text \<open>The state inside \<open>setupTasks\<close> when the first job is about to be registered.\<close>

definition demo_fresh :: state where
  "demo_fresh =
     \<lparr>taskScheduler = Some \<lparr>jobs = [], next_id = 0, started = False\<rparr>,
      taskFuncs = new_taskFuncs 7, TASK_SCHEDULE = demo_config, slog = [],
      calls = [CallNewScheduler]\<rparr>"

text \<open>A sequence of calls after startup; the engine refuses the update to an interval of zero.\<close>

definition demo_calls :: "api_call list" where
  "demo_calls =
     [Reschedule ''Cleanup Tokens'' 5, ListJobs, Reschedule ''Cleanup Images'' 0,
      FindJob ''Cleanup Images'', Reschedule ''Refresh Arr Queues'' 10,
      Reschedule ''Cleanup Tokens'' 90]"

section \<open>Properties\<close>

subsection \<open>Evaluating the examples\<close>

lemmas setup_defs =
  setupTasks_def initial_state_def gocron_NewScheduler_def add_or_log_def
  addTaskToScheduler_def effective_duration_def config_schedule_def gocron_NewJob_def
  make_job_def record_call_def slog_write_def new_taskFuncs_def start_scheduler_def
  gocron_Start_def Second_def Hour_def Let_def

lemma demo_scheduler: "taskScheduler demo_state = Some demo_engine"
  by (simp add: demo_state_def demo_behaviour_def demo_config_def demo_engine_def setup_defs)

subsection \<open>The lookup loop\<close>

lemma getTask_loop_find: "getTask_loop name js = find (\<lambda>j. job_name j = name) js"
  by (induction js) auto

lemma getTask_loop_None: "getTask_loop name js = None \<longleftrightarrow> name \<notin> set (map job_name js)"
  by (induction js) auto

lemma getTask_loop_Some: "getTask_loop name js = Some j \<Longrightarrow> j \<in> set js \<and> job_name j = name"
  by (induction js) (auto split: if_splits)

subsection \<open>Rescheduling an unknown name\<close>

text \<open>
  Claim C2. When the scheduler exists and none of its active jobs carries \<open>name\<close>,
  \<open>rescheduleTask\<close> returns the error "no task found" and leaves the whole program state
  as it was, so that \<open>getAllTasks\<close> gives the same answer before and after the call.
\<close>

theorem rescheduleTask_not_found:
  assumes "taskScheduler s = Some e"
    and "name \<notin> set (map job_name (gocron_Jobs e))"
  shows "rescheduleTask b name req s = (Inr (Some errNoTaskFound), s) \<and>
         getAllTasks b (snd (rescheduleTask b name req s)) = getAllTasks b s"
proof -
  from assms(2) have "getTask_loop name (gocron_Jobs e) = None"
    by (simp add: getTask_loop_None)
  with assms(1) have "rescheduleTask b name req s = (Inr (Some errNoTaskFound), s)"
    by (simp add: rescheduleTask_def getTask_def)
  then show ?thesis by simp
qed

theorem rescheduleTask_not_found_witness:
  "taskScheduler demo_state = Some demo_engine \<and>
   ''Nonexistent Task'' \<notin> set (map job_name (gocron_Jobs demo_engine)) \<and>
   rescheduleTask demo_behaviour ''Nonexistent Task'' \<lparr>Seconds = 10\<rparr> demo_state =
     (Inr (Some errNoTaskFound), demo_state) \<and>
   getAllTasks demo_behaviour
     (snd (rescheduleTask demo_behaviour ''Nonexistent Task'' \<lparr>Seconds = 10\<rparr> demo_state)) =
   getAllTasks demo_behaviour demo_state"
proof -
  have absent: "''Nonexistent Task'' \<notin> set (map job_name (gocron_Jobs demo_engine))"
    by (simp add: demo_engine_def gocron_Jobs_def)
  show ?thesis
    using rescheduleTask_not_found [OF demo_scheduler absent, of demo_behaviour "\<lparr>Seconds = 10\<rparr>"]
      demo_scheduler absent
    by simp
qed

subsection \<open>Looking a job up\<close>

text \<open>
  Claim C8. \<open>getTask\<close> scans the active jobs in the engine's order and returns the first
  job whose display name is \<open>name\<close>, or nil when no job carries the name. It changes
  nothing, so a second lookup with no mutation in between returns the same result as the
  first: the same job, id included, or nil both times.
\<close>

theorem getTask_first_match:
  "snd (getTask name s) = s \<and>
   getTask name (snd (getTask name s)) = getTask name s \<and>
   snd (exec b (FindJob name) s) = s \<and>
   (\<forall>e. taskScheduler s = Some e \<longrightarrow>
      fst (getTask name s) = Inr (find (\<lambda>j. job_name j = name) (gocron_Jobs e)) \<and>
      (fst (getTask name s) = Inr None \<longleftrightarrow> name \<notin> set (map job_name (gocron_Jobs e))))"
proof (intro conjI allI impI)
  show pure: "snd (getTask name s) = s"
    by (simp add: getTask_def split: option.splits)
  then show "getTask name (snd (getTask name s)) = getTask name s"
    by simp
  from pure show "snd (exec b (FindJob name) s) = s"
    by (simp add: split_beta)
next
  fix e assume "taskScheduler s = Some e"
  then show "fst (getTask name s) = Inr (find (\<lambda>j. job_name j = name) (gocron_Jobs e))"
    by (simp add: getTask_def getTask_loop_find)
next
  fix e assume "taskScheduler s = Some e"
  then show "fst (getTask name s) = Inr None \<longleftrightarrow> name \<notin> set (map job_name (gocron_Jobs e))"
    by (simp add: getTask_def getTask_loop_None)
qed

theorem getTask_first_match_witness:
  "snd (getTask ''Cleanup Images'' demo_state) = demo_state \<and>
   getTask ''Cleanup Images'' (snd (getTask ''Cleanup Images'' demo_state)) =
     getTask ''Cleanup Images'' demo_state \<and>
   taskScheduler demo_state = Some demo_engine \<and>
   fst (getTask ''Cleanup Images'' demo_state) =
     Inr (Some \<lparr>job_id = 1, job_name = ''Cleanup Images'', job_duration = 86400000000000,
                job_task = Some (CleanupImagesFn 7)\<rparr>) \<and>
   ''Refresh Arr Queues'' \<notin> set (map job_name (gocron_Jobs demo_engine)) \<and>
   fst (getTask ''Refresh Arr Queues'' demo_state) = Inr None"
proof -
  have a: "find (\<lambda>j. job_name j = ''Cleanup Images'') (gocron_Jobs demo_engine) =
      Some \<lparr>job_id = 1, job_name = ''Cleanup Images'', job_duration = 86400000000000,
             job_task = Some (CleanupImagesFn 7)\<rparr>"
    by (simp add: demo_engine_def gocron_Jobs_def)
  have b: "''Refresh Arr Queues'' \<notin> set (map job_name (gocron_Jobs demo_engine))"
    by (simp add: demo_engine_def gocron_Jobs_def)
  have c: "fst (getTask ''Cleanup Images'' demo_state) =
      Inr (find (\<lambda>j. job_name j = ''Cleanup Images'') (gocron_Jobs demo_engine))"
    using getTask_first_match [of "''Cleanup Images''" demo_state demo_behaviour] demo_scheduler
    by blast
  have d: "fst (getTask ''Refresh Arr Queues'' demo_state) = Inr None"
    using getTask_first_match [of "''Refresh Arr Queues''" demo_state demo_behaviour]
      demo_scheduler b
    by blast
  have e: "snd (getTask ''Cleanup Images'' demo_state) = demo_state"
    using getTask_first_match [of "''Cleanup Images''" demo_state demo_behaviour] by blast
  show ?thesis
    using a b c d e demo_scheduler by simp
qed

subsection \<open>Enumerating the jobs\<close>

lemma getAllTasks_loop_result:
  "fst (getAllTasks_loop b js acc s) =
   acc @ map (\<lambda>j. \<lparr>Name = job_name j,
                    NextRun = (case Job_NextRun b j of Inl err \<Rightarrow> zero_time | Inr t \<Rightarrow> t)\<rparr>) js"
  by (induction js arbitrary: acc s) (auto simp: Let_def split: sum.splits)

lemma getAllTasks_loop_state:
  "taskScheduler (snd (getAllTasks_loop b js acc s)) = taskScheduler s \<and>
   taskFuncs (snd (getAllTasks_loop b js acc s)) = taskFuncs s \<and>
   TASK_SCHEDULE (snd (getAllTasks_loop b js acc s)) = TASK_SCHEDULE s \<and>
   calls (snd (getAllTasks_loop b js acc s)) = calls s"
  by (induction js arbitrary: acc s) (auto simp: Let_def slog_write_def split: sum.splits)

lemma getAllTasks_state:
  "taskScheduler (snd (getAllTasks b s)) = taskScheduler s \<and>
   taskFuncs (snd (getAllTasks b s)) = taskFuncs s \<and>
   TASK_SCHEDULE (snd (getAllTasks b s)) = TASK_SCHEDULE s \<and>
   calls (snd (getAllTasks b s)) = calls s"
  using getAllTasks_loop_state [of b _ "[]" s]
  by (simp add: getAllTasks_def split_beta split: option.splits)

lemma getAllTasks_names:
  assumes "taskScheduler s = Some e"
  shows "\<exists>rs. fst (getAllTasks b s) = Inr rs \<and> map Name rs = map job_name (gocron_Jobs e)"
  using assms getAllTasks_loop_result [of b "gocron_Jobs e" "[]" s]
  by (simp add: getAllTasks_def split_beta comp_def)

text \<open>
  Claim C6. Whenever the scheduler exists, \<open>getAllTasks\<close> returns normally with one entry
  per active job, in the engine's order, each carrying the job's name; the entry of a job
  whose next-run query fails is still there, with the zero time as its next run. The
  engine's job set is the same afterwards.
\<close>

theorem getAllTasks_never_fails:
  assumes "taskScheduler s = Some e"
  shows "fst (getAllTasks b s) =
           Inr (map (\<lambda>j. \<lparr>Name = job_name j,
                           NextRun = (case Job_NextRun b j of
                                        Inl err \<Rightarrow> zero_time
                                      | Inr t \<Rightarrow> t)\<rparr>)
                  (gocron_Jobs e)) \<and>
         taskScheduler (snd (getAllTasks b s)) = Some e"
proof
  show "fst (getAllTasks b s) =
           Inr (map (\<lambda>j. \<lparr>Name = job_name j,
                           NextRun = (case Job_NextRun b j of
                                        Inl err \<Rightarrow> zero_time
                                      | Inr t \<Rightarrow> t)\<rparr>)
                  (gocron_Jobs e))"
    using assms getAllTasks_loop_result [of b "gocron_Jobs e" "[]" s]
    by (simp add: getAllTasks_def split_beta)
  show "taskScheduler (snd (getAllTasks b s)) = Some e"
    using assms getAllTasks_state [of b s] by simp
qed

theorem getAllTasks_never_fails_witness:
  "taskScheduler demo_state = Some demo_engine \<and>
   Job_NextRun demo_behaviour
     \<lparr>job_id = 1, job_name = ''Cleanup Images'', job_duration = 86400000000000,
      job_task = Some (CleanupImagesFn 7)\<rparr> = Inl (ErrorString ''job not scheduled'') \<and>
   fst (getAllTasks demo_behaviour demo_state) =
     Inr [\<lparr>Name = ''Cleanup Tokens'', NextRun = 30000000000\<rparr>,
          \<lparr>Name = ''Cleanup Images'', NextRun = zero_time\<rparr>] \<and>
   taskScheduler (snd (getAllTasks demo_behaviour demo_state)) = Some demo_engine"
  using getAllTasks_never_fails [OF demo_scheduler, of demo_behaviour] demo_scheduler
  by (simp add: demo_engine_def gocron_Jobs_def Job_NextRun_def demo_behaviour_def)

subsection \<open>Seconds as a duration\<close>

text \<open>
  \<open>time.Duration(n) * time.Second\<close> is a 64-bit product. It is the number of nanoseconds
  in \<open>n\<close> seconds exactly when \<open>n\<close> is at most 9223372036 in absolute value; beyond that
  the product wraps around.
\<close>

lemma seconds_exact_iff:
  fixes v :: "64 word"
  shows "sint (v * Second) = sint v * 1000000000 \<longleftrightarrow>
         - 9223372036 \<le> sint v \<and> sint v \<le> 9223372036"
proof
  assume eq: "sint (v * Second) = sint v * 1000000000"
  have "- (2 ^ 63) \<le> sint (v * Second)" "sint (v * Second) < 2 ^ 63"
    using sint_range_size [of "v * Second"] by (simp_all add: word_size)
  with eq show "- 9223372036 \<le> sint v \<and> sint v \<le> 9223372036"
    by simp
next
  assume r: "- 9223372036 \<le> sint v \<and> sint v \<le> 9223372036"
  have "sint (v * Second) = signed_take_bit 63 (sint v * sint Second)"
    by (simp add: sint_word_ariths)
  also have "sint Second = 1000000000"
    by (simp add: Second_def)
  also have "signed_take_bit 63 (sint v * 1000000000) = sint v * 1000000000"
    using r by (intro signed_take_bit_int_eq_self) simp_all
  finally show "sint (v * Second) = sint v * 1000000000" .
qed

subsection \<open>Registering the jobs at startup\<close>

lemma addTaskToScheduler_result:
  assumes "taskScheduler s = Some e"
  shows "fst (addTaskToScheduler b name dd s) =
           Inr (new_job_error b \<lparr>def_duration = effective_duration s name dd,
                                  def_task = taskFuncs s name, def_name = name\<rparr>)"
  using assms
  by (auto simp: addTaskToScheduler_def gocron_NewJob_def Let_def split: option.splits)

lemma addTaskToScheduler_state:
  assumes "taskScheduler s = Some e"
  shows "taskScheduler (snd (addTaskToScheduler b name dd s)) =
           Some (attempt_NewJob b e \<lparr>def_duration = effective_duration s name dd,
                                      def_task = taskFuncs s name, def_name = name\<rparr>) \<and>
         taskFuncs (snd (addTaskToScheduler b name dd s)) = taskFuncs s \<and>
         TASK_SCHEDULE (snd (addTaskToScheduler b name dd s)) = TASK_SCHEDULE s \<and>
         calls (snd (addTaskToScheduler b name dd s)) =
           calls s @ [CallNewJob \<lparr>def_duration = effective_duration s name dd,
                                   def_task = taskFuncs s name, def_name = name\<rparr>]"
  using assms
  by (auto simp: addTaskToScheduler_def attempt_NewJob_def gocron_NewJob_def Let_def
      record_call_def slog_write_def split: option.splits)

lemma add_or_log_result:
  assumes "taskScheduler s = Some e"
  shows "fst (add_or_log b name dd s) = Inr ()"
  using addTaskToScheduler_result [OF assms, of b name dd]
  by (cases "addTaskToScheduler b name dd s") (auto simp: add_or_log_def split: option.splits)

lemma add_or_log_state:
  assumes "taskScheduler s = Some e"
  shows "taskScheduler (snd (add_or_log b name dd s)) =
           Some (attempt_NewJob b e \<lparr>def_duration = effective_duration s name dd,
                                      def_task = taskFuncs s name, def_name = name\<rparr>) \<and>
         taskFuncs (snd (add_or_log b name dd s)) = taskFuncs s \<and>
         TASK_SCHEDULE (snd (add_or_log b name dd s)) = TASK_SCHEDULE s \<and>
         calls (snd (add_or_log b name dd s)) =
           calls s @ [CallNewJob \<lparr>def_duration = effective_duration s name dd,
                                   def_task = taskFuncs s name, def_name = name\<rparr>]"
  using addTaskToScheduler_state [OF assms, of b name dd]
    addTaskToScheduler_result [OF assms, of b name dd]
  by (cases "addTaskToScheduler b name dd s")
     (auto simp: add_or_log_def slog_write_def split: option.splits)

lemma effective_duration_cong:
  "TASK_SCHEDULE s' = TASK_SCHEDULE s \<Longrightarrow> effective_duration s' = effective_duration s"
  by (simp add: effective_duration_def config_schedule_def fun_eq_iff)


lemma attempt_NewJob_names:
  "map job_name (jobs (attempt_NewJob b e D)) =
   map job_name (jobs e) @ (if new_job_error b D = None then [def_name D] else [])"
  by (auto simp: attempt_NewJob_def gocron_NewJob_def make_job_def Let_def split: option.splits)

lemma attempt_NewJob_started: "started (attempt_NewJob b e D) = started e"
  by (auto simp: attempt_NewJob_def gocron_NewJob_def Let_def split: option.splits)

lemma start_scheduler_Some:
  "taskScheduler s = Some e \<Longrightarrow>
   start_scheduler s =
     (Inr (), slog_write Info ''SetupTasks: Jobs created and scheduler started.'' []
                ((record_call CallStart s)\<lparr>taskScheduler := Some (gocron_Start e)\<rparr>))"
  by (simp add: start_scheduler_def)

lemma setupTasks_success:
  fixes b :: engine_behaviour and d :: db and s :: state
  assumes ok: "new_scheduler_error b = None"
  defines "D1 \<equiv> startup_definition s d ''Cleanup Tokens'' (60 * Second)"
    and "D2 \<equiv> startup_definition s d ''Refresh Arr Queues'' (60 * Second)"
    and "D3 \<equiv> startup_definition s d ''Cleanup Images'' (24 * Hour)"
  defines "e3 \<equiv> attempt_NewJob b (attempt_NewJob b (attempt_NewJob b
                   \<lparr>jobs = [], next_id = 0, started = False\<rparr> D1) D2) D3"
  shows "fst (setupTasks b d s) = Inr () \<and>
         taskScheduler (snd (setupTasks b d s)) = Some (gocron_Start e3) \<and>
         taskFuncs (snd (setupTasks b d s)) = new_taskFuncs d \<and>
         TASK_SCHEDULE (snd (setupTasks b d s)) = TASK_SCHEDULE s \<and>
         calls (snd (setupTasks b d s)) =
           calls s @ [CallNewScheduler, CallNewJob D1, CallNewJob D2, CallNewJob D3, CallStart]"
proof -
  define e0 :: engine where "e0 = \<lparr>jobs = [], next_id = 0, started = False\<rparr>"
  define s0 where "s0 = (record_call CallNewScheduler s)
                          \<lparr>taskScheduler := Some e0, taskFuncs := new_taskFuncs d\<rparr>"
  define s1 where "s1 = snd (add_or_log b ''Cleanup Tokens'' (60 * Second) s0)"
  define s2 where "s2 = snd (add_or_log b ''Refresh Arr Queues'' (60 * Second) s1)"
  define s3 where "s3 = snd (add_or_log b ''Cleanup Images'' (24 * Hour) s2)"
  have p0: "taskScheduler s0 = Some e0" "taskFuncs s0 = new_taskFuncs d"
      "TASK_SCHEDULE s0 = TASK_SCHEDULE s" "calls s0 = calls s @ [CallNewScheduler]"
    by (simp_all add: s0_def record_call_def)
  have ed: "effective_duration s0 = effective_duration s"
    using p0(3) by (rule effective_duration_cong)
  have p1: "taskScheduler s1 = Some (attempt_NewJob b e0 D1)" "taskFuncs s1 = new_taskFuncs d"
      "TASK_SCHEDULE s1 = TASK_SCHEDULE s"
      "calls s1 = calls s @ [CallNewScheduler, CallNewJob D1]"
    using add_or_log_state [OF p0(1), of b "''Cleanup Tokens''" "60 * Second"] p0 ed
    by (simp_all add: s1_def D1_def startup_definition_def)
  have ed1: "effective_duration s1 = effective_duration s"
    using p1(3) by (rule effective_duration_cong)
  have p2: "taskScheduler s2 = Some (attempt_NewJob b (attempt_NewJob b e0 D1) D2)"
      "taskFuncs s2 = new_taskFuncs d" "TASK_SCHEDULE s2 = TASK_SCHEDULE s"
      "calls s2 = calls s @ [CallNewScheduler, CallNewJob D1, CallNewJob D2]"
    using add_or_log_state [OF p1(1), of b "''Refresh Arr Queues''" "60 * Second"] p1 ed1
    by (simp_all add: s2_def D2_def startup_definition_def)
  have ed2: "effective_duration s2 = effective_duration s"
    using p2(3) by (rule effective_duration_cong)
  have p3: "taskScheduler s3 = Some e3" "taskFuncs s3 = new_taskFuncs d"
      "TASK_SCHEDULE s3 = TASK_SCHEDULE s"
      "calls s3 = calls s @ [CallNewScheduler, CallNewJob D1, CallNewJob D2, CallNewJob D3]"
    using add_or_log_state [OF p2(1), of b "''Cleanup Images''" "24 * Hour"] p2 ed2
    by (simp_all add: s3_def D3_def e3_def e0_def startup_definition_def)
  have r1: "add_or_log b ''Cleanup Tokens'' (60 * Second) s0 = (Inr (), s1)"
    using add_or_log_result [OF p0(1), of b "''Cleanup Tokens''" "60 * Second"]
    by (simp add: s1_def prod_eq_iff)
  have r2: "add_or_log b ''Refresh Arr Queues'' (60 * Second) s1 = (Inr (), s2)"
    using add_or_log_result [OF p1(1), of b "''Refresh Arr Queues''" "60 * Second"]
    by (simp add: s2_def prod_eq_iff)
  have r3: "add_or_log b ''Cleanup Images'' (24 * Hour) s2 = (Inr (), s3)"
    using add_or_log_result [OF p2(1), of b "''Cleanup Images''" "24 * Hour"]
    by (simp add: s3_def prod_eq_iff)
  have "setupTasks b d s = start_scheduler s3"
    using ok r1 r2 r3
    by (simp add: setupTasks_def gocron_NewScheduler_def s0_def [symmetric] e0_def [symmetric])
  then have "setupTasks b d s =
      (Inr (), slog_write Info ''SetupTasks: Jobs created and scheduler started.'' []
                 ((record_call CallStart s3)\<lparr>taskScheduler := Some (gocron_Start e3)\<rparr>))"
    using start_scheduler_Some [OF p3(1)] by simp
  then show ?thesis
    using p3 by (simp add: slog_write_def record_call_def)
qed

text \<open>
  Claim C5. When the engine has been constructed, \<open>setupTasks\<close> attempts all three
  registrations whichever of them the engine refuses, and then starts the engine: it
  returns normally, the calls it makes are the construction, the three registrations in
  order and the start, the engine is started, and the active jobs (also as \<open>getAllTasks\<close>
  lists them) are exactly the tasks whose registration the engine did not refuse, in
  registration order.
\<close>

theorem setupTasks_partial_failure:
  assumes "new_scheduler_error b = None"
  shows "fst (setupTasks b d s) = Inr () \<and>
         (\<exists>e. taskScheduler (snd (setupTasks b d s)) = Some e \<and> started e \<and>
              map job_name (gocron_Jobs e) =
                map fst (filter (\<lambda>(n, dd). new_job_error b (startup_definition s d n dd) = None)
                           startup_tasks)) \<and>
         (\<exists>rs. fst (getAllTasks b (snd (setupTasks b d s))) = Inr rs \<and>
               map Name rs =
                 map fst (filter (\<lambda>(n, dd). new_job_error b (startup_definition s d n dd) = None)
                            startup_tasks)) \<and>
         calls (snd (setupTasks b d s)) =
           calls s @ [CallNewScheduler] @
           map (\<lambda>(n, dd). CallNewJob (startup_definition s d n dd)) startup_tasks @
           [CallStart]"
proof -
  let ?D = "startup_definition s d"
  let ?e3 = "attempt_NewJob b (attempt_NewJob b (attempt_NewJob b
               \<lparr>jobs = [], next_id = 0, started = False\<rparr>
               (?D ''Cleanup Tokens'' (60 * Second))) (?D ''Refresh Arr Queues'' (60 * Second)))
               (?D ''Cleanup Images'' (24 * Hour))"
  let ?names = "map fst (filter (\<lambda>(n, dd). new_job_error b (?D n dd) = None) startup_tasks)"
  note su = setupTasks_success [OF assms, of d s]
  have sch: "taskScheduler (snd (setupTasks b d s)) = Some (gocron_Start ?e3)"
    using su by simp
  have nm: "map job_name (gocron_Jobs (gocron_Start ?e3)) = ?names"
    by (simp add: gocron_Jobs_def gocron_Start_def attempt_NewJob_names startup_tasks_def
        startup_definition_def)
  have st: "started (gocron_Start ?e3)"
    by (simp add: gocron_Start_def)
  obtain rs where rs: "fst (getAllTasks b (snd (setupTasks b d s))) = Inr rs"
      "map Name rs = map job_name (gocron_Jobs (gocron_Start ?e3))"
    using getAllTasks_names [OF sch, of b] by blast
  have cl: "calls (snd (setupTasks b d s)) =
           calls s @ [CallNewScheduler] @
           map (\<lambda>(n, dd). CallNewJob (startup_definition s d n dd)) startup_tasks @
           [CallStart]"
    using su by (simp add: startup_tasks_def)
  from su sch nm st rs cl show ?thesis
    by (intro conjI exI [of _ "gocron_Start ?e3"] exI [of _ rs]) simp_all
qed


theorem setupTasks_partial_failure_witness:
  "new_scheduler_error demo_behaviour = None \<and>
   new_job_error demo_behaviour (startup_definition (initial_state demo_config) 7
      ''Refresh Arr Queues'' (60 * Second)) = Some (ErrorString ''limit reached'') \<and>
   fst (setupTasks demo_behaviour 7 (initial_state demo_config)) = Inr () \<and>
   (\<exists>e. taskScheduler demo_state = Some e \<and> started e \<and>
        map job_name (gocron_Jobs e) = [''Cleanup Tokens'', ''Cleanup Images'']) \<and>
   (\<exists>rs. fst (getAllTasks demo_behaviour demo_state) = Inr rs \<and>
         map Name rs = [''Cleanup Tokens'', ''Cleanup Images'']) \<and>
   calls demo_state =
     [CallNewScheduler,
      CallNewJob \<lparr>def_duration = 30000000000, def_task = Some (CleanupTokensFn 7),
                  def_name = ''Cleanup Tokens''\<rparr>,
      CallNewJob \<lparr>def_duration = 60000000000, def_task = Some RefreshArrQueuesFn,
                  def_name = ''Refresh Arr Queues''\<rparr>,
      CallNewJob \<lparr>def_duration = 86400000000000, def_task = Some (CleanupImagesFn 7),
                  def_name = ''Cleanup Images''\<rparr>,
      CallStart]"
proof -
  have ok: "new_scheduler_error demo_behaviour = None"
    by (simp add: demo_behaviour_def)
  have flt: "map fst (filter (\<lambda>(n, dd). new_job_error demo_behaviour
                 (startup_definition (initial_state demo_config) 7 n dd) = None) startup_tasks) =
             [''Cleanup Tokens'', ''Cleanup Images'']"
    by (simp add: startup_tasks_def startup_definition_def demo_behaviour_def)
  have cls: "map (\<lambda>(n, dd). CallNewJob (startup_definition (initial_state demo_config) 7 n dd))
               startup_tasks =
     [CallNewJob \<lparr>def_duration = 30000000000, def_task = Some (CleanupTokensFn 7),
                  def_name = ''Cleanup Tokens''\<rparr>,
      CallNewJob \<lparr>def_duration = 60000000000, def_task = Some RefreshArrQueuesFn,
                  def_name = ''Refresh Arr Queues''\<rparr>,
      CallNewJob \<lparr>def_duration = 86400000000000, def_task = Some (CleanupImagesFn 7),
                  def_name = ''Cleanup Images''\<rparr>]"
    by (simp add: startup_tasks_def startup_definition_def demo_config_def initial_state_def
        effective_duration_def config_schedule_def new_taskFuncs_def Second_def Hour_def)
  have rej: "new_job_error demo_behaviour (startup_definition (initial_state demo_config) 7
      ''Refresh Arr Queues'' (60 * Second)) = Some (ErrorString ''limit reached'')"
    by (simp add: startup_definition_def demo_behaviour_def)
  have c0: "calls (initial_state demo_config) = []"
    by (simp add: initial_state_def)
  show ?thesis
    using setupTasks_partial_failure [OF ok, of 7 "initial_state demo_config"] ok rej
    unfolding flt cls c0 demo_state_def [symmetric]
    by simp
qed

subsection \<open>A scheduler that cannot be constructed\<close>

text \<open>
  Claim C7, as stated, fails: \<open>setupTasks\<close> has no result value and does not panic, so its
  caller receives nothing when the construction of the engine fails; the call returns
  just as it does after a successful construction.
\<close>

theorem setupTasks_failure_not_signalled:
  "new_scheduler_error failing_behaviour = Some (ErrorString ''out of memory'') \<and>
   fst (setupTasks failing_behaviour 7 (initial_state demo_config)) = Inr () \<and>
   fst (setupTasks failing_behaviour 7 (initial_state demo_config)) =
     fst (setupTasks demo_behaviour 7 (initial_state demo_config))"
  by (simp add: failing_behaviour_def demo_behaviour_def demo_config_def setup_defs)

text \<open>
  Claim C7, amended. When the construction of the engine fails, \<open>setupTasks\<close> writes one
  error record to the log and returns normally; it makes no further call to an engine
  (no registration, no start), and leaves \<open>taskScheduler\<close> and \<open>taskFuncs\<close> as they were.
\<close>

theorem setupTasks_engine_failure:
  assumes "new_scheduler_error b = Some err"
  shows "setupTasks b d s =
           (Inr (),
            s\<lparr>slog := slog s @ [(Error, ''SetupTasks: Failed to create new scheduler!'',
                                  [(''error'', VErr err)])],
              calls := calls s @ [CallNewScheduler]\<rparr>) \<and>
         taskScheduler (snd (setupTasks b d s)) = taskScheduler s \<and>
         taskFuncs (snd (setupTasks b d s)) = taskFuncs s \<and>
         active_jobs (snd (setupTasks b d s)) = active_jobs s"
  using assms
  by (simp add: setupTasks_def gocron_NewScheduler_def slog_write_def record_call_def
      active_jobs_def)

theorem setupTasks_engine_failure_witness:
  "new_scheduler_error failing_behaviour = Some (ErrorString ''out of memory'') \<and>
   setupTasks failing_behaviour 7 (initial_state demo_config) =
     (Inr (),
      \<lparr>taskScheduler = None, taskFuncs = Map.empty, TASK_SCHEDULE = demo_config,
       slog = [(Error, ''SetupTasks: Failed to create new scheduler!'',
                [(''error'', VErr (ErrorString ''out of memory''))])],
       calls = [CallNewScheduler]\<rparr>) \<and>
   active_jobs (snd (setupTasks failing_behaviour 7 (initial_state demo_config))) = []"
proof -
  have f: "new_scheduler_error failing_behaviour = Some (ErrorString ''out of memory'')"
    by (simp add: failing_behaviour_def)
  show ?thesis
    using setupTasks_engine_failure [OF f, of 7 "initial_state demo_config"] f
    by (simp add: initial_state_def active_jobs_def)
qed

subsection \<open>The interval of a job registered at startup\<close>

text \<open>
  Claim C4 says that a non-zero override is the interval of the registered job, in
  seconds, and the comment of \<open>addTaskToScheduler\<close> ("gets schedule from config") says
  the same. The code misses it for a large override: the product of the override and
  \<open>time.Second\<close> is not checked for overflow. With an override of 18446744074 seconds for
  "Cleanup Tokens", \<open>setupTasks\<close> registers the job with an interval of 290448384
  nanoseconds.
\<close>

theorem addTaskToScheduler_interval_overflow:
  "TASK_SCHEDULE (initial_state overflow_config) ''Cleanup Tokens'' = Some 18446744074 \<and>
   map (\<lambda>j. (job_name j, sint (job_duration j)))
     (active_jobs (snd (setupTasks demo_behaviour 7 (initial_state overflow_config)))) =
     [(''Cleanup Tokens'', 290448384), (''Cleanup Images'', 86400000000000)] \<and>
   (290448384 :: int) \<noteq> 18446744074 * 1000000000"
  by (simp add: demo_behaviour_def overflow_config_def active_jobs_def gocron_Jobs_def setup_defs)

text \<open>
  Away from the overflow the registration is as intended. A job that
  \<open>addTaskToScheduler\<close> registers has the given name and the stored work function of that
  name; its interval is the default duration when the override is absent or zero, and
  the product of the override and \<open>time.Second\<close> otherwise, which is the override in
  seconds exactly when the override is between -9223372036 and 9223372036.
\<close>

theorem addTaskToScheduler_interval:
  assumes "taskScheduler s = Some e"
    and "fst (addTaskToScheduler b name defaultDur s) = Inr None"
  shows "\<exists>j. taskScheduler (snd (addTaskToScheduler b name defaultDur s)) =
               Some (e\<lparr>jobs := jobs e @ [j], next_id := Suc (next_id e)\<rparr>) \<and>
             job_name j = name \<and>
             job_task j = taskFuncs s name \<and>
             job_duration j =
               (case TASK_SCHEDULE s name of
                  None \<Rightarrow> defaultDur
                | Some v \<Rightarrow> if v \<noteq> 0 then v * Second else defaultDur) \<and>
             (\<forall>v. TASK_SCHEDULE s name = Some v \<and> v \<noteq> 0 \<longrightarrow>
                  (sint (job_duration j) = sint v * 1000000000 \<longleftrightarrow>
                   - 9223372036 \<le> sint v \<and> sint v \<le> 9223372036))"
proof -
  let ?d = "\<lparr>def_duration = effective_duration s name defaultDur,
             def_task = taskFuncs s name, def_name = name\<rparr>"
  let ?j = "make_job (next_id e) ?d"
  have acc: "new_job_error b ?d = None"
    using addTaskToScheduler_result [OF assms(1), of b name defaultDur] assms(2) by simp
  have "taskScheduler (snd (addTaskToScheduler b name defaultDur s)) =
          Some (e\<lparr>jobs := jobs e @ [?j], next_id := Suc (next_id e)\<rparr>)"
    using addTaskToScheduler_state [OF assms(1), of b name defaultDur] acc
    by (simp add: attempt_NewJob_def gocron_NewJob_def Let_def)
  moreover have "job_name ?j = name" "job_task ?j = taskFuncs s name"
    by (simp_all add: make_job_def)
  moreover have dur: "job_duration ?j =
               (case TASK_SCHEDULE s name of
                  None \<Rightarrow> defaultDur
                | Some v \<Rightarrow> if v \<noteq> 0 then v * Second else defaultDur)"
    by (simp add: make_job_def effective_duration_def config_schedule_def split: option.splits)
  moreover have "\<forall>v. TASK_SCHEDULE s name = Some v \<and> v \<noteq> 0 \<longrightarrow>
                  (sint (job_duration ?j) = sint v * 1000000000 \<longleftrightarrow>
                   - 9223372036 \<le> sint v \<and> sint v \<le> 9223372036)"
    using dur by (auto simp: seconds_exact_iff)
  ultimately show ?thesis by blast
qed


theorem addTaskToScheduler_interval_witness:
  "taskScheduler demo_fresh = Some \<lparr>jobs = [], next_id = 0, started = False\<rparr> \<and>
   fst (addTaskToScheduler demo_behaviour ''Cleanup Tokens'' (60 * Second) demo_fresh) = Inr None \<and>
   TASK_SCHEDULE demo_fresh ''Cleanup Tokens'' = Some 30 \<and>
   (\<exists>j. taskScheduler
          (snd (addTaskToScheduler demo_behaviour ''Cleanup Tokens'' (60 * Second) demo_fresh)) =
          Some \<lparr>jobs = [j], next_id = 1, started = False\<rparr> \<and>
        job_name j = ''Cleanup Tokens'' \<and>
        job_task j = Some (CleanupTokensFn 7) \<and>
        job_duration j = 30000000000 \<and>
        sint (job_duration j) = 30 * 1000000000)"
proof -
  let ?e = "\<lparr>jobs = [], next_id = 0, started = False\<rparr>"
  have h1: "taskScheduler demo_fresh = Some ?e"
    by (simp add: demo_fresh_def)
  have h2: "fst (addTaskToScheduler demo_behaviour ''Cleanup Tokens'' (60 * Second) demo_fresh) =
            Inr None"
    by (simp add: demo_fresh_def demo_behaviour_def demo_config_def setup_defs)
  have cfg: "TASK_SCHEDULE demo_fresh ''Cleanup Tokens'' = Some 30"
    by (simp add: demo_fresh_def demo_config_def)
  have fn: "taskFuncs demo_fresh ''Cleanup Tokens'' = Some (CleanupTokensFn 7)"
    by (simp add: demo_fresh_def new_taskFuncs_def)
  obtain j where j:
      "taskScheduler
         (snd (addTaskToScheduler demo_behaviour ''Cleanup Tokens'' (60 * Second) demo_fresh)) =
       Some (?e\<lparr>jobs := jobs ?e @ [j], next_id := Suc (next_id ?e)\<rparr>)"
      "job_name j = ''Cleanup Tokens''"
      "job_task j = taskFuncs demo_fresh ''Cleanup Tokens''"
      "job_duration j =
         (case TASK_SCHEDULE demo_fresh ''Cleanup Tokens'' of
            None \<Rightarrow> 60 * Second
          | Some v \<Rightarrow> if v \<noteq> 0 then v * Second else 60 * Second)"
    using addTaskToScheduler_interval [OF h1 h2] by blast
  have dur: "job_duration j = 30000000000"
    using j(4) cfg by (simp add: Second_def)
  have "taskScheduler
          (snd (addTaskToScheduler demo_behaviour ''Cleanup Tokens'' (60 * Second) demo_fresh)) =
        Some \<lparr>jobs = [j], next_id = 1, started = False\<rparr>"
    using j(1) by simp
  moreover have "sint (job_duration j) = 30 * 1000000000"
    using dur by simp
  ultimately show ?thesis
    using h1 h2 cfg fn j(2,3) dur by auto
qed

subsection \<open>Evaluating calls on the example state\<close>

lemmas reschedule_defs =
  rescheduleTask_def getTask_def gocron_Jobs_def reschedule_definition_def gocron_Update_def
  make_job_def record_call_def slog_write_def Second_def Let_def

lemma demo_state_eq:
  "demo_state =
     \<lparr>taskScheduler = Some demo_engine, taskFuncs = new_taskFuncs 7,
      TASK_SCHEDULE = demo_config,
      slog =
        [(Debug, ''addTaskToScheduler: Job added.'',
          [(''job_name'', VStr ''Cleanup Tokens''), (''duration_used'', VDur 30000000000),
           (''duration_default'', VDur 60000000000)]),
         (Debug, ''addTaskToScheduler: Job added.'',
          [(''job_name'', VStr ''Refresh Arr Queues''), (''duration_used'', VDur 60000000000),
           (''duration_default'', VDur 60000000000)]),
         (Error, ''SetupTasks: Failed to add new job'',
          [(''job'', VStr ''Refresh Arr Queues''), (''err'', VErr (ErrorString ''limit reached''))]),
         (Debug, ''addTaskToScheduler: Job added.'',
          [(''job_name'', VStr ''Cleanup Images''), (''duration_used'', VDur 86400000000000),
           (''duration_default'', VDur 86400000000000)]),
         (Info, ''SetupTasks: Jobs created and scheduler started.'', [])],
      calls =
        [CallNewScheduler,
         CallNewJob \<lparr>def_duration = 30000000000, def_task = Some (CleanupTokensFn 7),
                     def_name = ''Cleanup Tokens''\<rparr>,
         CallNewJob \<lparr>def_duration = 60000000000, def_task = Some RefreshArrQueuesFn,
                     def_name = ''Refresh Arr Queues''\<rparr>,
         CallNewJob \<lparr>def_duration = 86400000000000, def_task = Some (CleanupImagesFn 7),
                     def_name = ''Cleanup Images''\<rparr>,
         CallStart]\<rparr>"
  by (simp add: demo_state_def demo_behaviour_def demo_config_def demo_engine_def setup_defs)

lemma demo_run_jobs:
  "active_jobs (run demo_behaviour demo_calls demo_state) =
     [\<lparr>job_id = 1, job_name = ''Cleanup Images'', job_duration = 86400000000000,
       job_task = Some (CleanupImagesFn 7)\<rparr>,
      \<lparr>job_id = 3, job_name = ''Cleanup Tokens'', job_duration = 90000000000,
       job_task = Some (CleanupTokensFn 7)\<rparr>]"
  by (simp add: demo_calls_def demo_state_eq demo_engine_def demo_behaviour_def active_jobs_def
      new_taskFuncs_def getAllTasks_def Job_NextRun_def zero_time_def reschedule_defs
      errNoTaskFound_def errFailedToUpdate_def)


lemma demo_run_scheduler:
  "taskScheduler (run demo_behaviour demo_calls demo_state) =
     Some \<lparr>jobs =
        [\<lparr>job_id = 1, job_name = ''Cleanup Images'', job_duration = 86400000000000,
          job_task = Some (CleanupImagesFn 7)\<rparr>,
         \<lparr>job_id = 3, job_name = ''Cleanup Tokens'', job_duration = 90000000000,
          job_task = Some (CleanupTokensFn 7)\<rparr>],
        next_id = 4, started = True\<rparr>"
  by (simp add: demo_calls_def demo_state_eq demo_engine_def demo_behaviour_def
      new_taskFuncs_def getAllTasks_def Job_NextRun_def zero_time_def reschedule_defs
      errNoTaskFound_def errFailedToUpdate_def)

lemma getAllTasks_result:
  assumes "taskScheduler s = Some e"
  shows "fst (getAllTasks b s) =
           Inr (map (\<lambda>j. \<lparr>Name = job_name j,
                           NextRun = (case Job_NextRun b j of
                                        Inl err \<Rightarrow> zero_time
                                      | Inr t \<Rightarrow> t)\<rparr>)
                  (gocron_Jobs e))"
  using assms getAllTasks_loop_result [of b "gocron_Jobs e" "[]" s]
  by (simp add: getAllTasks_def split_beta)

subsection \<open>What rescheduleTask does to the state\<close>

lemma find_name_Some:
  "name \<in> set (map job_name js) \<Longrightarrow> \<exists>j. find (\<lambda>x. job_name x = name) js = Some j"
  by (induction js) auto

lemma find_name_props:
  "find (\<lambda>x. job_name x = name) js = Some j \<Longrightarrow> j \<in> set js \<and> job_name j = name"
  by (induction js) (auto split: if_splits)

lemma rescheduleTask_found:
  assumes "taskScheduler s = Some e"
    and "find (\<lambda>x. job_name x = name) (gocron_Jobs e) = Some j"
  shows "rescheduleTask b name req s =
     (case update_error b (job_id j) (reschedule_definition s name req) of
        Some err \<Rightarrow>
          (Inr (Some errFailedToUpdate),
           slog_write Error ''rescheduleTask: Failed to update job!'' [(''error'', VErr err)]
             (record_call (CallUpdate (job_id j) (reschedule_definition s name req)) s))
      | None \<Rightarrow>
          (Inr None,
           (record_call (CallUpdate (job_id j) (reschedule_definition s name req)) s)
             \<lparr>taskScheduler :=
                Some (e\<lparr>jobs := filter (\<lambda>x. job_id x \<noteq> job_id j) (jobs e) @
                                   [make_job (next_id e) (reschedule_definition s name req)],
                        next_id := Suc (next_id e)\<rparr>)\<rparr>))"
proof -
  have mem: "j \<in> set (jobs e)"
    using find_name_props [OF assms(2)] by (simp add: gocron_Jobs_def)
  then have known: "\<not> list_all (\<lambda>x. job_id x \<noteq> job_id j) (jobs e)"
    by (auto simp: list_all_iff)
  have "getTask name s = (Inr (Some j), s)"
    using assms by (simp add: getTask_def getTask_loop_find)
  then show ?thesis
    using assms(1) known
    by (simp add: rescheduleTask_def gocron_Update_def Let_def split: option.splits)
qed

lemma rescheduleTask_panic:
  "taskScheduler s = None \<Longrightarrow> rescheduleTask b name req s = (Inl NilPointerDereference, s)"
  by (simp add: rescheduleTask_def getTask_def)

lemma rescheduleTask_absent:
  assumes "taskScheduler s = Some e" and "name \<notin> set (map job_name (gocron_Jobs e))"
  shows "rescheduleTask b name req s = (Inr (Some errNoTaskFound), s)"
proof -
  from assms(2) have "getTask_loop name (gocron_Jobs e) = None"
    by (simp add: getTask_loop_None)
  with assms(1) show ?thesis
    by (simp add: rescheduleTask_def getTask_def)
qed

subsection \<open>The invariant of the job set\<close>

lemma engine_inv_empty: "engine_inv \<lparr>jobs = [], next_id = 0, started = False\<rparr>"
  by (simp add: engine_inv_def)

lemma engine_inv_attempt:
  assumes "engine_inv e" and "def_name D \<notin> set (map job_name (jobs e))"
  shows "engine_inv (attempt_NewJob b e D)"
  using assms
  by (auto simp: engine_inv_def attempt_NewJob_def gocron_NewJob_def make_job_def Let_def
      list_all_iff split: option.splits)

lemma engine_inv_Start: "engine_inv (gocron_Start e) = engine_inv e"
  by (simp add: engine_inv_def gocron_Start_def)

lemma engine_inv_replace:
  assumes inv: "engine_inv e" and j: "j \<in> set (jobs e)" and nm: "def_name D = job_name j"
  shows "engine_inv (e\<lparr>jobs := filter (\<lambda>x. job_id x \<noteq> job_id j) (jobs e) @
                              [make_job (next_id e) D],
                      next_id := Suc (next_id e)\<rparr>)"
proof -
  let ?keep = "filter (\<lambda>x. job_id x \<noteq> job_id j) (jobs e)"
  have d1: "distinct (map job_id ?keep)" "distinct (map job_name ?keep)"
    using inv by (simp_all add: engine_inv_def distinct_map_filter)
  have lt: "\<forall>x \<in> set (jobs e). job_id x < next_id e"
    using inv by (simp add: engine_inv_def list_all_iff)
  have fresh: "next_id e \<notin> job_id ` set ?keep"
    using lt by auto
  have inj: "inj_on job_name (set (jobs e))"
    using inv by (simp add: engine_inv_def distinct_map)
  have gone: "job_name j \<notin> job_name ` set ?keep"
  proof
    assume "job_name j \<in> job_name ` set ?keep"
    then obtain x where x: "x \<in> set (jobs e)" "job_id x \<noteq> job_id j" "job_name x = job_name j"
      by auto
    with inj j have "x = j" by (auto dest: inj_onD)
    with x(2) show False by simp
  qed
  show ?thesis
    using d1 lt fresh gone nm
    by (auto simp: engine_inv_def make_job_def list_all_iff)
qed

lemma state_inv_rescheduleTask:
  assumes "state_inv s"
  shows "state_inv (snd (rescheduleTask b name req s))"
proof (cases "taskScheduler s")
  case None
  then show ?thesis using assms by (simp add: rescheduleTask_panic)
next
  case (Some e)
  show ?thesis
  proof (cases "name \<in> set (map job_name (gocron_Jobs e))")
    case False
    then show ?thesis using assms Some by (simp add: rescheduleTask_absent)
  next
    case True
    then obtain j where j: "find (\<lambda>x. job_name x = name) (gocron_Jobs e) = Some j"
      using find_name_Some by blast
    then have mem: "j \<in> set (jobs e)" "job_name j = name"
      using find_name_props [OF j] by (simp_all add: gocron_Jobs_def)
    have inv: "engine_inv e"
      using assms Some by (simp add: state_inv_def)
    have "engine_inv (e\<lparr>jobs := filter (\<lambda>x. job_id x \<noteq> job_id j) (jobs e) @
                              [make_job (next_id e) (reschedule_definition s name req)],
                      next_id := Suc (next_id e)\<rparr>)"
      using inv mem by (intro engine_inv_replace) (simp_all add: reschedule_definition_def)
    then show ?thesis
      using assms Some rescheduleTask_found [OF Some j, of b req]
      by (simp add: state_inv_def slog_write_def record_call_def split: option.splits)
  qed
qed

lemma state_inv_getAllTasks: "state_inv (snd (getAllTasks b s)) = state_inv s"
  using getAllTasks_state [of b s] by (simp add: state_inv_def)

lemma state_inv_exec: "state_inv s \<Longrightarrow> state_inv (snd (exec b c s))"
  by (cases c)
     (simp_all add: split_beta state_inv_getAllTasks state_inv_rescheduleTask getTask_def
        split: option.splits)

lemma state_inv_run: "state_inv s \<Longrightarrow> state_inv (run b cs s)"
  by (induction cs arbitrary: s) (simp_all add: state_inv_exec)

lemma state_inv_after_setup: "state_inv (after_setup b d cfg)"
proof (cases "new_scheduler_error b")
  case (Some err)
  then show ?thesis
    by (simp add: after_setup_def state_inv_def setupTasks_def gocron_NewScheduler_def
        slog_write_def record_call_def initial_state_def)
next
  case None
  let ?s = "initial_state cfg"
  let ?D = "startup_definition ?s d"
  let ?e1 = "attempt_NewJob b \<lparr>jobs = [], next_id = 0, started = False\<rparr>
               (?D ''Cleanup Tokens'' (60 * Second))"
  let ?e2 = "attempt_NewJob b ?e1 (?D ''Refresh Arr Queues'' (60 * Second))"
  let ?e3 = "attempt_NewJob b ?e2 (?D ''Cleanup Images'' (24 * Hour))"
  have i1: "engine_inv ?e1"
    by (intro engine_inv_attempt engine_inv_empty) simp
  have i2: "engine_inv ?e2"
    using i1 by (rule engine_inv_attempt) (simp add: attempt_NewJob_names startup_definition_def)
  have i3: "engine_inv ?e3"
    using i2 by (rule engine_inv_attempt) (simp add: attempt_NewJob_names startup_definition_def)
  have "taskScheduler (after_setup b d cfg) = Some (gocron_Start ?e3)"
    using setupTasks_success [OF None, of d ?s] by (simp add: after_setup_def)
  then show ?thesis
    using i3 by (simp add: state_inv_def engine_inv_Start)
qed

text \<open>
  Claim C3. In every state reached by \<open>setupTasks\<close> in a fresh process followed by any
  sequence of calls to \<open>rescheduleTask\<close> (and to \<open>getAllTasks\<close> and \<open>getTask\<close>), whatever
  the engine refuses, no two active jobs share a name, and no two entries returned by
  \<open>getAllTasks\<close> share a name.
\<close>

theorem job_names_unique:
  "distinct (job_names (run b cs (after_setup b d cfg))) \<and>
   (\<forall>rs. fst (getAllTasks b (run b cs (after_setup b d cfg))) = Inr rs \<longrightarrow>
         distinct (map Name rs))"
proof -
  let ?s = "run b cs (after_setup b d cfg)"
  have inv: "state_inv ?s"
    by (intro state_inv_run state_inv_after_setup)
  then have dn: "distinct (job_names ?s)"
    by (simp add: state_inv_def engine_inv_def job_names_def active_jobs_def gocron_Jobs_def
        split: option.splits)
  have "distinct (map Name rs)" if "fst (getAllTasks b ?s) = Inr rs" for rs
  proof (cases "taskScheduler ?s")
    case None
    with that show ?thesis by (simp add: getAllTasks_def)
  next
    case (Some e)
    from getAllTasks_names [OF Some, of b] that
    have "map Name rs = map job_name (gocron_Jobs e)" by auto
    with dn Some show ?thesis
      by (simp add: job_names_def active_jobs_def)
  qed
  with dn show ?thesis by blast
qed

theorem job_names_unique_witness:
  "job_names (run demo_behaviour demo_calls (after_setup demo_behaviour 7 demo_config)) =
     [''Cleanup Images'', ''Cleanup Tokens''] \<and>
   distinct (job_names (run demo_behaviour demo_calls (after_setup demo_behaviour 7 demo_config))) \<and>
   fst (getAllTasks demo_behaviour
          (run demo_behaviour demo_calls (after_setup demo_behaviour 7 demo_config))) =
     Inr [\<lparr>Name = ''Cleanup Images'', NextRun = zero_time\<rparr>,
          \<lparr>Name = ''Cleanup Tokens'', NextRun = 90000000000\<rparr>] \<and>
   distinct (map Name [\<lparr>Name = ''Cleanup Images'', NextRun = zero_time\<rparr>,
                       \<lparr>Name = ''Cleanup Tokens'', NextRun = 90000000000\<rparr>])"
proof -
  have st: "after_setup demo_behaviour 7 demo_config = demo_state"
    by (simp add: after_setup_def demo_state_def)
  have nm: "job_names (run demo_behaviour demo_calls demo_state) =
      [''Cleanup Images'', ''Cleanup Tokens'']"
    by (simp add: job_names_def demo_run_jobs)
  have ls: "fst (getAllTasks demo_behaviour (run demo_behaviour demo_calls demo_state)) =
     Inr [\<lparr>Name = ''Cleanup Images'', NextRun = zero_time\<rparr>,
          \<lparr>Name = ''Cleanup Tokens'', NextRun = 90000000000\<rparr>]"
    using getAllTasks_result [OF demo_run_scheduler, of demo_behaviour]
    by (simp add: gocron_Jobs_def Job_NextRun_def demo_behaviour_def)
  show ?thesis
    using job_names_unique [of demo_behaviour demo_calls 7 demo_config] nm ls
    unfolding st by simp
qed

subsection \<open>What no call changes\<close>

lemma taskFuncs_rescheduleTask: "taskFuncs (snd (rescheduleTask b name req s)) = taskFuncs s"
  by (auto simp: rescheduleTask_def getTask_def gocron_Update_def Let_def record_call_def
      slog_write_def split: option.splits)

lemma taskFuncs_exec: "taskFuncs (snd (exec b c s)) = taskFuncs s"
  using getAllTasks_state [of b s]
  by (cases c) (simp_all add: split_beta taskFuncs_rescheduleTask getTask_def split: option.splits)

lemma taskFuncs_run: "taskFuncs (run b cs s) = taskFuncs s"
  by (induction cs arbitrary: s) (simp_all add: taskFuncs_exec)

lemma filter_other_names:
  assumes "distinct (map job_id js)" and "j \<in> set js"
  shows "filter (\<lambda>x. job_name x \<noteq> job_name j) (filter (\<lambda>x. job_id x \<noteq> job_id j) js) =
         filter (\<lambda>x. job_name x \<noteq> job_name j) js"
proof -
  have inj: "inj_on job_id (set js)"
    using assms(1) by (simp add: distinct_map)
  have "job_id x \<noteq> job_id j" if "x \<in> set js" "job_name x \<noteq> job_name j" for x
  proof
    assume "job_id x = job_id j"
    with inj that(1) assms(2) have "x = j" by (auto dest: inj_onD)
    with that(2) show False by simp
  qed
  then show ?thesis
    by (auto simp: filter_filter intro!: filter_cong)
qed

lemma rescheduleTask_frame:
  assumes "state_inv s"
  shows "filter (\<lambda>x. job_name x \<noteq> name) (active_jobs (snd (rescheduleTask b name req s))) =
         filter (\<lambda>x. job_name x \<noteq> name) (active_jobs s)"
proof (cases "taskScheduler s")
  case None
  then show ?thesis by (simp add: rescheduleTask_panic)
next
  case (Some e)
  show ?thesis
  proof (cases "name \<in> set (map job_name (gocron_Jobs e))")
    case False
    then show ?thesis using Some by (simp add: rescheduleTask_absent)
  next
    case True
    then obtain j where j: "find (\<lambda>x. job_name x = name) (gocron_Jobs e) = Some j"
      using find_name_Some by blast
    then have mem: "j \<in> set (jobs e)" "job_name j = name"
      using find_name_props [OF j] by (simp_all add: gocron_Jobs_def)
    have ids: "distinct (map job_id (jobs e))"
      using assms Some by (simp add: state_inv_def engine_inv_def)
    have keep: "filter (\<lambda>x. job_name x \<noteq> name) (filter (\<lambda>x. job_id x \<noteq> job_id j) (jobs e)) =
        filter (\<lambda>x. job_name x \<noteq> name) (jobs e)"
      using filter_other_names [OF ids mem(1)] mem(2) by simp
    show ?thesis
      using Some keep rescheduleTask_found [OF Some j, of b req]
      by (simp add: active_jobs_def gocron_Jobs_def slog_write_def record_call_def make_job_def
          reschedule_definition_def split: option.splits)
  qed
qed

text \<open>
  Claim C10. After \<open>setupTasks\<close>, no sequence of calls to \<open>getAllTasks\<close>, \<open>getTask\<close> and
  \<open>rescheduleTask\<close>, successful or not, changes \<open>taskFuncs\<close>: it stays the table built by
  \<open>setupTasks\<close>. And in every state so reached, \<open>rescheduleTask\<close> for a name leaves every
  active job with another name as it was, in the same order.
\<close>

theorem taskFuncs_read_only:
  "taskFuncs (run b cs (after_setup b d cfg)) = taskFuncs (after_setup b d cfg) \<and>
   (new_scheduler_error b = None \<longrightarrow>
      taskFuncs (run b cs (after_setup b d cfg)) = new_taskFuncs d) \<and>
   (\<forall>name secs.
      filter (\<lambda>x. job_name x \<noteq> name)
        (active_jobs (snd (exec b (Reschedule name secs) (run b cs (after_setup b d cfg))))) =
      filter (\<lambda>x. job_name x \<noteq> name) (active_jobs (run b cs (after_setup b d cfg))))"
proof (intro conjI impI allI)
  show "taskFuncs (run b cs (after_setup b d cfg)) = taskFuncs (after_setup b d cfg)"
    by (rule taskFuncs_run)
next
  assume "new_scheduler_error b = None"
  then have "taskFuncs (after_setup b d cfg) = new_taskFuncs d"
    using setupTasks_success [of b d "initial_state cfg"] by (simp add: after_setup_def)
  then show "taskFuncs (run b cs (after_setup b d cfg)) = new_taskFuncs d"
    by (simp add: taskFuncs_run)
next
  fix name secs
  have "state_inv (run b cs (after_setup b d cfg))"
    by (intro state_inv_run state_inv_after_setup)
  then show "filter (\<lambda>x. job_name x \<noteq> name)
        (active_jobs (snd (exec b (Reschedule name secs) (run b cs (after_setup b d cfg))))) =
      filter (\<lambda>x. job_name x \<noteq> name) (active_jobs (run b cs (after_setup b d cfg)))"
    using rescheduleTask_frame [of _ name b "\<lparr>Seconds = secs\<rparr>"] by (simp add: split_beta)
qed

theorem taskFuncs_read_only_witness:
  "new_scheduler_error demo_behaviour = None \<and>
   taskFuncs (run demo_behaviour demo_calls (after_setup demo_behaviour 7 demo_config)) =
     new_taskFuncs 7 \<and>
   filter (\<lambda>x. job_name x \<noteq> ''Cleanup Tokens'')
     (active_jobs (snd (exec demo_behaviour (Reschedule ''Cleanup Tokens'' 15)
        (run demo_behaviour demo_calls (after_setup demo_behaviour 7 demo_config))))) =
     [\<lparr>job_id = 1, job_name = ''Cleanup Images'', job_duration = 86400000000000,
       job_task = Some (CleanupImagesFn 7)\<rparr>]"
proof -
  have ok: "new_scheduler_error demo_behaviour = None"
    by (simp add: demo_behaviour_def)
  have st: "after_setup demo_behaviour 7 demo_config = demo_state"
    by (simp add: after_setup_def demo_state_def)
  note th = taskFuncs_read_only [of demo_behaviour demo_calls 7 demo_config, unfolded st]
  from th ok have a: "taskFuncs (run demo_behaviour demo_calls demo_state) = new_taskFuncs 7"
    by blast
  from th have "filter (\<lambda>x. job_name x \<noteq> ''Cleanup Tokens'')
      (active_jobs (snd (exec demo_behaviour (Reschedule ''Cleanup Tokens'' 15)
         (run demo_behaviour demo_calls demo_state)))) =
     filter (\<lambda>x. job_name x \<noteq> ''Cleanup Tokens'')
      (active_jobs (run demo_behaviour demo_calls demo_state))"
    by blast
  then have b: "filter (\<lambda>x. job_name x \<noteq> ''Cleanup Tokens'')
      (active_jobs (snd (exec demo_behaviour (Reschedule ''Cleanup Tokens'' 15)
         (run demo_behaviour demo_calls demo_state)))) =
     [\<lparr>job_id = 1, job_name = ''Cleanup Images'', job_duration = 86400000000000,
       job_task = Some (CleanupImagesFn 7)\<rparr>]"
    by (simp add: demo_run_jobs)
  from ok a b show ?thesis
    unfolding st by (intro conjI)
qed

subsection \<open>Rescheduling an existing job\<close>

text \<open>
  Claim C1 says that the replacement has a duration of the requested number of seconds,
  as the comment of the field \<open>Seconds\<close> does ("number of seconds inbetween each run of
  this task"). The code misses it for a large request: the product of the seconds and
  \<open>time.Second\<close> is not checked for overflow. Rescheduling "Cleanup Tokens" to 9223372037
  seconds returns nil and leaves a job whose interval is -9223372036709551616 nanoseconds.
\<close>

theorem rescheduleTask_duration_overflow:
  "fst (rescheduleTask demo_behaviour ''Cleanup Tokens'' \<lparr>Seconds = 9223372037\<rparr> demo_state) =
     Inr None \<and>
   map (\<lambda>j. (job_name j, sint (job_duration j)))
     (active_jobs
        (snd (rescheduleTask demo_behaviour ''Cleanup Tokens'' \<lparr>Seconds = 9223372037\<rparr>
                demo_state))) =
     [(''Cleanup Images'', 86400000000000), (''Cleanup Tokens'', - 9223372036709551616)] \<and>
   (- 9223372036709551616 :: int) \<noteq> 9223372037 * 1000000000"
  by (simp add: demo_state_eq demo_engine_def demo_behaviour_def active_jobs_def
      new_taskFuncs_def reschedule_defs)

text \<open>
  The rest of the replacement is as intended. When an active job carries \<open>name\<close>,
  \<open>rescheduleTask\<close> submits to the engine one update for the id of the first such job,
  with the stored work function \<open>taskFuncs[name]\<close>, the same display name, and as
  duration the product of the requested seconds and \<open>time.Second\<close>, which is that many
  seconds exactly when the request is between -9223372036 and 9223372036. When the call
  returns nil, the old job is no longer among the active jobs, and the replacement is a
  new job under an id that no job had before, with that name, work function and duration.
  The hypothesis \<open>engine_inv\<close> holds in every state reached after startup
  (\<open>state_inv_after_setup\<close>, \<open>state_inv_run\<close>).
\<close>

theorem rescheduleTask_replaces:
  assumes "taskScheduler s = Some e"
    and "engine_inv e"
    and "name \<in> set (map job_name (gocron_Jobs e))"
  shows "\<exists>j. find (\<lambda>x. job_name x = name) (gocron_Jobs e) = Some j \<and>
           calls (snd (rescheduleTask b name req s)) =
             calls s @ [CallUpdate (job_id j)
                          \<lparr>def_duration = Seconds req * Second,
                           def_task = taskFuncs s name, def_name = name\<rparr>] \<and>
           (sint (Seconds req * Second) = sint (Seconds req) * 1000000000 \<longleftrightarrow>
              - 9223372036 \<le> sint (Seconds req) \<and> sint (Seconds req) \<le> 9223372036) \<and>
           (fst (rescheduleTask b name req s) = Inr None \<longrightarrow>
              (\<exists>j'. active_jobs (snd (rescheduleTask b name req s)) =
                      filter (\<lambda>x. job_id x \<noteq> job_id j) (gocron_Jobs e) @ [j'] \<and>
                    j \<notin> set (active_jobs (snd (rescheduleTask b name req s))) \<and>
                    job_id j' \<notin> set (map job_id (gocron_Jobs e)) \<and>
                    job_name j' = name \<and>
                    job_task j' = taskFuncs s name \<and>
                    job_duration j' = Seconds req * Second))"
proof -
  let ?D = "reschedule_definition s name req"
  let ?r = "rescheduleTask b name req s"
  from assms(3) obtain j where j: "find (\<lambda>x. job_name x = name) (gocron_Jobs e) = Some j"
    using find_name_Some by blast
  have mem: "j \<in> set (jobs e)"
    using find_name_props [OF j] by (simp add: gocron_Jobs_def)
  have lt: "\<forall>x \<in> set (jobs e). job_id x < next_id e"
    using assms(2) by (simp add: engine_inv_def list_all_iff)
  note found = rescheduleTask_found [OF assms(1) j, of b req]
  have D: "?D = \<lparr>def_duration = Seconds req * Second, def_task = taskFuncs s name,
                 def_name = name\<rparr>"
    by (simp add: reschedule_definition_def)
  have cl: "calls (snd ?r) = calls s @ [CallUpdate (job_id j) ?D]"
    using found by (simp add: slog_write_def record_call_def split: option.splits)
  have succ: "\<exists>j'. active_jobs (snd ?r) =
                      filter (\<lambda>x. job_id x \<noteq> job_id j) (gocron_Jobs e) @ [j'] \<and>
                    j \<notin> set (active_jobs (snd ?r)) \<and>
                    job_id j' \<notin> set (map job_id (gocron_Jobs e)) \<and>
                    job_name j' = name \<and>
                    job_task j' = taskFuncs s name \<and>
                    job_duration j' = Seconds req * Second"
    if ok: "fst ?r = Inr None"
  proof -
    have acc: "update_error b (job_id j) ?D = None"
      using found ok by (simp add: errFailedToUpdate_def split: option.splits)
    let ?j' = "make_job (next_id e) ?D"
    have aj: "active_jobs (snd ?r) =
                filter (\<lambda>x. job_id x \<noteq> job_id j) (gocron_Jobs e) @ [?j']"
      using found acc by (simp add: active_jobs_def gocron_Jobs_def record_call_def)
    have ne: "job_id ?j' \<noteq> job_id j"
      using lt mem by (auto simp: make_job_def)
    have "j \<notin> set (active_jobs (snd ?r))"
      using aj ne by auto
    moreover have "job_id ?j' \<notin> set (map job_id (gocron_Jobs e))"
      using lt by (auto simp: make_job_def gocron_Jobs_def)
    moreover have "job_name ?j' = name" "job_task ?j' = taskFuncs s name"
        "job_duration ?j' = Seconds req * Second"
      by (simp_all add: make_job_def reschedule_definition_def)
    ultimately show ?thesis using aj by blast
  qed
  show ?thesis
    using j cl succ seconds_exact_iff [of "Seconds req"] unfolding D by blast
qed

lemma demo_engine_inv: "engine_inv demo_engine"
  by (simp add: engine_inv_def demo_engine_def)

theorem rescheduleTask_replaces_witness:
  "taskScheduler demo_state = Some demo_engine \<and>
   engine_inv demo_engine \<and>
   ''Cleanup Tokens'' \<in> set (map job_name (gocron_Jobs demo_engine)) \<and>
   fst (rescheduleTask demo_behaviour ''Cleanup Tokens'' \<lparr>Seconds = 5\<rparr> demo_state) = Inr None \<and>
   (\<exists>j j'. find (\<lambda>x. job_name x = ''Cleanup Tokens'') (gocron_Jobs demo_engine) = Some j \<and>
      calls (snd (rescheduleTask demo_behaviour ''Cleanup Tokens'' \<lparr>Seconds = 5\<rparr> demo_state)) =
        calls demo_state @
        [CallUpdate (job_id j)
           \<lparr>def_duration = 5 * Second, def_task = taskFuncs demo_state ''Cleanup Tokens'',
            def_name = ''Cleanup Tokens''\<rparr>] \<and>
      active_jobs (snd (rescheduleTask demo_behaviour ''Cleanup Tokens'' \<lparr>Seconds = 5\<rparr>
                          demo_state)) =
        filter (\<lambda>x. job_id x \<noteq> job_id j) (gocron_Jobs demo_engine) @ [j'] \<and>
      j \<notin> set (active_jobs (snd (rescheduleTask demo_behaviour ''Cleanup Tokens''
                                     \<lparr>Seconds = 5\<rparr> demo_state))) \<and>
      job_name j' = ''Cleanup Tokens'' \<and>
      job_duration j' = 5 * Second)"
proof -
  have nm: "''Cleanup Tokens'' \<in> set (map job_name (gocron_Jobs demo_engine))"
    by (simp add: demo_engine_def gocron_Jobs_def)
  have ok: "fst (rescheduleTask demo_behaviour ''Cleanup Tokens'' \<lparr>Seconds = 5\<rparr> demo_state) =
            Inr None"
    by (simp add: demo_state_eq demo_engine_def demo_behaviour_def new_taskFuncs_def
        reschedule_defs)
  show ?thesis
    using rescheduleTask_replaces [OF demo_scheduler demo_engine_inv nm, of demo_behaviour
        "\<lparr>Seconds = 5\<rparr>"] demo_scheduler demo_engine_inv nm ok
    by fastforce
qed

subsection \<open>No validation of the interval\<close>

text \<open>
  Claim C9 says that, whatever the requested seconds, the replacement is submitted with a
  duration of that many seconds. The code misses it for a large request, by the same
  unchecked product: for a request of 36028797018963968 seconds the duration submitted to
  the engine is 0, which is not that number of seconds.
\<close>

theorem rescheduleTask_submits_zero_duration:
  "calls (snd (rescheduleTask demo_behaviour ''Cleanup Tokens''
                 \<lparr>Seconds = 36028797018963968\<rparr> demo_state)) =
     calls demo_state @
     [CallUpdate 0 \<lparr>def_duration = 0, def_task = Some (CleanupTokensFn 7),
                    def_name = ''Cleanup Tokens''\<rparr>] \<and>
   sint (0 :: duration) \<noteq> sint (36028797018963968 :: go_int) * 1000000000"
  by (simp add: demo_state_eq demo_engine_def demo_behaviour_def new_taskFuncs_def
      reschedule_defs)

text \<open>
  The rest is as the claim says: \<open>rescheduleTask\<close> does not look at the requested seconds.
  Whatever the value, zero and negative ones included: when no active job carries the
  name it returns "no task found"; when one does, it submits the update, returns nil
  exactly when the engine accepts it and "failed to update job" exactly when the engine
  rejects it. The duration submitted is the requested number of seconds exactly when the
  request is between -9223372036 and 9223372036.
\<close>

theorem rescheduleTask_no_validation:
  assumes "taskScheduler s = Some e"
  shows "(name \<notin> set (map job_name (gocron_Jobs e)) \<longrightarrow>
            fst (rescheduleTask b name req s) = Inr (Some errNoTaskFound)) \<and>
         (name \<in> set (map job_name (gocron_Jobs e)) \<longrightarrow>
            (\<exists>j. find (\<lambda>x. job_name x = name) (gocron_Jobs e) = Some j \<and>
               calls (snd (rescheduleTask b name req s)) =
                 calls s @ [CallUpdate (job_id j)
                              \<lparr>def_duration = Seconds req * Second,
                               def_task = taskFuncs s name, def_name = name\<rparr>] \<and>
               (fst (rescheduleTask b name req s) = Inr None \<longleftrightarrow>
                  update_error b (job_id j)
                    \<lparr>def_duration = Seconds req * Second,
                     def_task = taskFuncs s name, def_name = name\<rparr> = None) \<and>
               (fst (rescheduleTask b name req s) = Inr (Some errFailedToUpdate) \<longleftrightarrow>
                  update_error b (job_id j)
                    \<lparr>def_duration = Seconds req * Second,
                     def_task = taskFuncs s name, def_name = name\<rparr> \<noteq> None))) \<and>
         (sint (Seconds req * Second) = sint (Seconds req) * 1000000000 \<longleftrightarrow>
            - 9223372036 \<le> sint (Seconds req) \<and> sint (Seconds req) \<le> 9223372036)"
proof (intro conjI impI)
  assume "name \<notin> set (map job_name (gocron_Jobs e))"
  then show "fst (rescheduleTask b name req s) = Inr (Some errNoTaskFound)"
    using assms by (simp add: rescheduleTask_absent)
next
  let ?D = "\<lparr>def_duration = Seconds req * Second, def_task = taskFuncs s name, def_name = name\<rparr>"
  assume "name \<in> set (map job_name (gocron_Jobs e))"
  then obtain j where j: "find (\<lambda>x. job_name x = name) (gocron_Jobs e) = Some j"
    using find_name_Some by blast
  note found = rescheduleTask_found [OF assms j, of b req, unfolded reschedule_definition_def]
  have "calls (snd (rescheduleTask b name req s)) = calls s @ [CallUpdate (job_id j) ?D]"
    using found by (simp add: slog_write_def record_call_def split: option.splits)
  moreover have "fst (rescheduleTask b name req s) = Inr None \<longleftrightarrow>
      update_error b (job_id j) ?D = None"
    using found by (simp split: option.splits)
  moreover have "fst (rescheduleTask b name req s) = Inr (Some errFailedToUpdate) \<longleftrightarrow>
      update_error b (job_id j) ?D \<noteq> None"
    using found by (auto split: option.splits)
  ultimately show "\<exists>j. find (\<lambda>x. job_name x = name) (gocron_Jobs e) = Some j \<and>
               calls (snd (rescheduleTask b name req s)) =
                 calls s @ [CallUpdate (job_id j) ?D] \<and>
               (fst (rescheduleTask b name req s) = Inr None \<longleftrightarrow>
                  update_error b (job_id j) ?D = None) \<and>
               (fst (rescheduleTask b name req s) = Inr (Some errFailedToUpdate) \<longleftrightarrow>
                  update_error b (job_id j) ?D \<noteq> None)"
    using j by (intro exI [of _ j]) simp
next
  show "sint (Seconds req * Second) = sint (Seconds req) * 1000000000 \<longleftrightarrow>
            - 9223372036 \<le> sint (Seconds req) \<and> sint (Seconds req) \<le> 9223372036"
    by (rule seconds_exact_iff)
qed


theorem rescheduleTask_no_validation_witness:
  "taskScheduler demo_state = Some demo_engine \<and>
   ''Cleanup Images'' \<in> set (map job_name (gocron_Jobs demo_engine)) \<and>
   update_error demo_behaviour 1
     \<lparr>def_duration = 0 * Second, def_task = taskFuncs demo_state ''Cleanup Images'',
      def_name = ''Cleanup Images''\<rparr> \<noteq> None \<and>
   calls (snd (rescheduleTask demo_behaviour ''Cleanup Images'' \<lparr>Seconds = 0\<rparr> demo_state)) =
     calls demo_state @
     [CallUpdate 1
        \<lparr>def_duration = 0 * Second, def_task = taskFuncs demo_state ''Cleanup Images'',
         def_name = ''Cleanup Images''\<rparr>] \<and>
   fst (rescheduleTask demo_behaviour ''Cleanup Images'' \<lparr>Seconds = 0\<rparr> demo_state) =
     Inr (Some errFailedToUpdate) \<and>
   ''Nonexistent Task'' \<notin> set (map job_name (gocron_Jobs demo_engine)) \<and>
   fst (rescheduleTask demo_behaviour ''Nonexistent Task'' \<lparr>Seconds = - 5\<rparr> demo_state) =
     Inr (Some errNoTaskFound)"
proof -
  have nm: "''Cleanup Images'' \<in> set (map job_name (gocron_Jobs demo_engine))"
    by (simp add: demo_engine_def gocron_Jobs_def)
  have absent: "''Nonexistent Task'' \<notin> set (map job_name (gocron_Jobs demo_engine))"
    by (simp add: demo_engine_def gocron_Jobs_def)
  have fnd: "find (\<lambda>x. job_name x = ''Cleanup Images'') (gocron_Jobs demo_engine) =
      Some \<lparr>job_id = 1, job_name = ''Cleanup Images'', job_duration = 86400000000000,
             job_task = Some (CleanupImagesFn 7)\<rparr>"
    by (simp add: demo_engine_def gocron_Jobs_def)
  have rej: "update_error demo_behaviour 1
     \<lparr>def_duration = 0 * Second, def_task = taskFuncs demo_state ''Cleanup Images'',
      def_name = ''Cleanup Images''\<rparr> \<noteq> None"
    by (simp add: demo_behaviour_def)
  note th1 = rescheduleTask_no_validation [OF demo_scheduler, of "''Cleanup Images''"
      demo_behaviour "\<lparr>Seconds = 0\<rparr>"]
  note th2 = rescheduleTask_no_validation [OF demo_scheduler, of "''Nonexistent Task''"
      demo_behaviour "\<lparr>Seconds = - 5\<rparr>"]
  from th1 nm fnd have
    c: "calls (snd (rescheduleTask demo_behaviour ''Cleanup Images'' \<lparr>Seconds = 0\<rparr> demo_state)) =
     calls demo_state @
     [CallUpdate 1
        \<lparr>def_duration = 0 * Second, def_task = taskFuncs demo_state ''Cleanup Images'',
         def_name = ''Cleanup Images''\<rparr>]"
    and f: "fst (rescheduleTask demo_behaviour ''Cleanup Images'' \<lparr>Seconds = 0\<rparr> demo_state) =
       Inr (Some errFailedToUpdate) \<longleftrightarrow>
     update_error demo_behaviour 1
       \<lparr>def_duration = 0 * Second, def_task = taskFuncs demo_state ''Cleanup Images'',
        def_name = ''Cleanup Images''\<rparr> \<noteq> None"
    by auto
  from th2 absent have
    n: "fst (rescheduleTask demo_behaviour ''Nonexistent Task'' \<lparr>Seconds = - 5\<rparr> demo_state) =
     Inr (Some errNoTaskFound)"
    by blast
  from demo_scheduler nm rej c f n absent show ?thesis
    by (intro conjI) simp_all
qed

end
